theory Spec2Isabelle
  imports Complex_Main "HOL-Library.Sublist"
begin

section \<open>Strings\<close>

text \<open>
  A string is a list of 8-bit code units: the model covers the JavaScript strings all of
  whose UTF-16 code units are below 256 (ISO-8859-1), which includes every type tag and
  URL that the resolver recognises.
\<close>

text \<open>
  The letters \<^verbatim>\<open>String.prototype.toLowerCase\<close> changes in that range: A to Z, and
  the accented capitals 192 to 222 without the multiplication sign 215.
\<close>

definition isUpperCase :: "char \<Rightarrow> bool" where
  "isUpperCase c =
     (let n = (of_char c :: nat)
      in (65 \<le> n \<and> n \<le> 90) \<or> (192 \<le> n \<and> n \<le> 222 \<and> n \<noteq> 215))"

text \<open>
  The lower-case letter is 32 above its capital; bit 5 is clear in every capital, so
  adding 32 sets that bit (lemma \<open>toLowerChar_add32\<close>).
\<close>

definition toLowerChar :: "char \<Rightarrow> char" where
  "toLowerChar c =
     (if isUpperCase c
      then (case c of Char b0 b1 b2 b3 b4 b5 b6 b7 \<Rightarrow> Char b0 b1 b2 b3 b4 True b6 b7)
      else c)"

definition toLowerCase :: "string \<Rightarrow> string" where
  "toLowerCase s = map toLowerChar s"

text \<open>
  White space and line terminators of \<^verbatim>\<open>String.prototype.trim\<close> below 256: tab, line
  feed, vertical tab, form feed, carriage return, space and no-break space.
\<close>

definition isWhiteSpace :: "char \<Rightarrow> bool" where
  "isWhiteSpace c = ((of_char c :: nat) \<in> {9, 10, 11, 12, 13, 32, 160})"

definition trim :: "string \<Rightarrow> string" where
  "trim s = rev (dropWhile isWhiteSpace (rev (dropWhile isWhiteSpace s)))"

definition endsWith :: "string \<Rightarrow> string \<Rightarrow> bool" where
  "endsWith s x = suffix x s"

definition includes_str :: "string \<Rightarrow> string \<Rightarrow> bool" where
  "includes_str s x = sublist x s"

text \<open>
  \<^verbatim>\<open>value || fallback\<close> on an optional string: \<^verbatim>\<open>undefined\<close> and the empty string are
  falsy.
\<close>

definition truthy_str :: "string option \<Rightarrow> bool" where
  "truthy_str v = (case v of None \<Rightarrow> False | Some s \<Rightarrow> s \<noteq> [])"

definition or_str :: "string option \<Rightarrow> string \<Rightarrow> string" where
  "or_str v fallback = (case v of None \<Rightarrow> fallback | Some s \<Rightarrow> if s = [] then fallback else s)"

text \<open>Decimal digits of an index, as a template literal prints a number.\<close>

definition digitChar :: "nat \<Rightarrow> char" where
  "digitChar d = ''0123456789'' ! d"

fun string_of_nat :: "nat \<Rightarrow> string" where
  "string_of_nat n =
     (if n < 10 then [digitChar n]
      else string_of_nat (n div 10) @ [digitChar (n mod 10)])"

section \<open>Stream kinds (ShakaPlayer, normalizeType)\<close>

text \<open>
  The TypeScript union \<^verbatim>\<open>"mp4" | "hls" | "dash" | "embed" | "iframe"\<close>. The embed kind
  of the specification is written \<^verbatim>\<open>"iframe"\<close> by the resolver; the player treats
  \<^verbatim>\<open>"embed"\<close> and \<^verbatim>\<open>"iframe"\<close> alike.
\<close>

datatype stream_type = Mp4 | Hls | Dash | Embed | Iframe

fun type_name :: "stream_type \<Rightarrow> string" where
  "type_name Mp4 = ''mp4''"
| "type_name Hls = ''hls''"
| "type_name Dash = ''dash''"
| "type_name Embed = ''embed''"
| "type_name Iframe = ''iframe''"

text \<open>
  \<^verbatim>\<open>
  const t = (rawType || "").toString().toLowerCase().trim();
  if (t === "iframe" || t === "embed") return "iframe";
  if (t === "mp4") return "mp4";
  if (t === "hls" || t === "m3u8") return "hls";
  if (t === "dash") return "dash";
  const u = (url || "").toLowerCase();
  if (u.endsWith(".m3u8")) return "hls";
  if (u.endsWith(".mpd")) return "dash";
  if (u.endsWith(".mp4")) return "mp4";
  if (u.includes("youtube.com") || u.includes("youtu.be") || u.includes("player.")
      || u.includes("embed")) return "iframe";
  return "hls";
  \<close>
\<close>

definition normalizeType :: "string option \<Rightarrow> string option \<Rightarrow> stream_type" where
  "normalizeType rawType url =
     (let t = trim (toLowerCase (or_str rawType ''''))
      in if t = ''iframe'' \<or> t = ''embed'' then Iframe
         else if t = ''mp4'' then Mp4
         else if t = ''hls'' \<or> t = ''m3u8'' then Hls
         else if t = ''dash'' then Dash
         else
           (let u = toLowerCase (or_str url '''')
            in if endsWith u ''.m3u8'' then Hls
               else if endsWith u ''.mpd'' then Dash
               else if endsWith u ''.mp4'' then Mp4
               else if includes_str u ''youtube.com'' \<or> includes_str u ''youtu.be''
                       \<or> includes_str u ''player.'' \<or> includes_str u ''embed'' then Iframe
               else Hls))"

section \<open>Source descriptors and their normalisation (ShakaPlayer)\<close>

text \<open>
  What the fields \<^verbatim>\<open>quality_urls\<close> and \<^verbatim>\<open>mp4Urls\<close> of a descriptor can hold: nothing,
  \<^verbatim>\<open>null\<close>, an object from quality label to URL (its entries in key order), or an array,
  which the code tests for and rejects.
\<close>

datatype jsvalue = JUndefined | JNull | JObject "(string \<times> string) list" | JArray "string list"

fun truthy :: "jsvalue \<Rightarrow> bool" where
  "truthy JUndefined = False"
| "truthy JNull = False"
| "truthy (JObject kvs) = True"
| "truthy (JArray xs) = True"

definition or_value :: "jsvalue \<Rightarrow> jsvalue \<Rightarrow> jsvalue" where
  "or_value a b = (if truthy a then a else b)"

text \<open>A descriptor as the page hands it over; every field may be missing.\<close>

record raw_source =
  raw_id :: "string option"
  raw_server_name :: "string option"
  raw_source_type :: "string option"
  raw_url :: "string option"
  raw_quality_urls :: jsvalue
  raw_mp4Urls :: jsvalue
  raw_quality :: "string option"
  raw_is_default :: "bool option"
  raw_version :: "string option"
  raw_permission :: "string option"

text \<open>The interface \<^verbatim>\<open>VideoSource\<close> of ShakaPlayer.\<close>

record video_source =
  vs_id :: string
  server_name :: string
  source_type :: string
  vs_type :: stream_type
  url :: "string option"
  quality_urls :: "(string \<times> string) list option"
  quality :: "string option"
  is_default :: "bool option"
  version :: "string option"
  permission :: "string option"

text \<open>
  \<^verbatim>\<open>
  let qualityUrls = source.quality_urls || (source as any).mp4Urls;
  if (qualityUrls && typeof qualityUrls === 'object' && !Array.isArray(qualityUrls)) {
    if (Object.keys(qualityUrls).length === 0 || qualityUrls._type === 'undefined') {
      qualityUrls = undefined;
    }
  } else {
    qualityUrls = undefined;
  }
  \<close>
\<close>

definition qualityUrls :: "raw_source \<Rightarrow> (string \<times> string) list option" where
  "qualityUrls source =
     (case or_value (raw_quality_urls source) (raw_mp4Urls source) of
        JObject kvs \<Rightarrow>
          if length kvs = 0 \<or> map_of kvs ''_type'' = Some ''undefined'' then None
          else Some kvs
      | _ \<Rightarrow> None)"

text \<open>
  The body of \<^verbatim>\<open>rawSources.map((source, index) => ...)\<close>:
  \<^verbatim>\<open>
  id: source.id || `server-${index}`,
  server_name: source.server_name || `Server ${index + 1}`,
  source_type: source.source_type || sourceType,
  type: sourceType,
  url: isFreeContent ? source.url : undefined,
  quality_urls: isFreeContent ? qualityUrls : undefined,
  quality: source.quality, is_default: source.is_default,
  version: source.version, permission: source.permission,
  \<close>
\<close>

definition normalizeSource :: "bool \<Rightarrow> nat \<Rightarrow> raw_source \<Rightarrow> video_source" where
  "normalizeSource isFreeContent index source =
     (let sourceType = normalizeType (raw_source_type source) (raw_url source)
      in \<lparr>vs_id = or_str (raw_id source) (''server-'' @ string_of_nat index),
          server_name = or_str (raw_server_name source) (''Server '' @ string_of_nat (index + 1)),
          source_type = or_str (raw_source_type source) (type_name sourceType),
          vs_type = sourceType,
          url = (if isFreeContent then raw_url source else None),
          quality_urls = (if isFreeContent then qualityUrls source else None),
          quality = raw_quality source,
          is_default = raw_is_default source,
          version = raw_version source,
          permission = raw_permission source\<rparr>)"

section \<open>The player component's scope (ShakaPlayer)\<close>

text \<open>
  The access tier is the TypeScript union \<^verbatim>\<open>'free' | 'rent' | 'vip'\<close>.
\<close>

datatype access = Free | Rent | Vip

text \<open>
  The props of ShakaPlayer that the functions below read, after their defaults
  (\<^verbatim>\<open>type = "hls"\<close>, \<^verbatim>\<open>accessType = 'free'\<close>, \<^verbatim>\<open>excludeFromPlan = false\<close>), and the values
  of the hooks \<^verbatim>\<open>useAuth\<close>, \<^verbatim>\<open>useSubscription\<close> and \<^verbatim>\<open>useRental\<close>. The memos, effects
  and callbacks of the component are closures over these.
\<close>

record player =
  videoSources :: "raw_source list option"
  src :: "string option"
  type_prop :: stream_type
  episodeId :: "string option"
  movieId :: "string option"
  accessType :: access
  excludeFromPlan :: bool
  mediaId :: "string option"
  mediaType :: "string option"
  user :: "string option"
  hasActiveSubscription :: bool
  subscriptionLoading :: bool
  hasActiveRental :: bool
  rentalLoading :: bool

section \<open>The access gate (ShakaPlayer, isLocked)\<close>

text \<open>
  \<^verbatim>\<open>
  if (subscriptionLoading || rentalLoading || accessType === 'free') return false;
  if (accessType === 'rent' && excludeFromPlan) return !hasActiveRental;
  if (accessType === 'rent' && !excludeFromPlan) return !hasActiveSubscription && !hasActiveRental;
  if (accessType === 'vip') return !hasActiveSubscription;
  return false;
  \<close>
\<close>

definition isLocked :: "player \<Rightarrow> bool" where
  "isLocked p =
     (if subscriptionLoading p \<or> rentalLoading p \<or> accessType p = Free then False
      else if accessType p = Rent \<and> excludeFromPlan p then \<not> hasActiveRental p
      else if accessType p = Rent \<and> \<not> excludeFromPlan p
        then \<not> hasActiveSubscription p \<and> \<not> hasActiveRental p
      else if accessType p = Vip then \<not> hasActiveSubscription p
      else False)"

section \<open>Episode-level access (VideoPlayer)\<close>

record episode =
  ep_id :: string
  episode_number :: nat
  ep_name :: string
  still_path :: "string option"
  ep_access :: "access option"

text \<open>
  \<^verbatim>\<open>const currentEpisode = episodes?.find(ep => ep.id === currentEpisodeId);\<close>
  Both the list and the selected id are optional props; an absent id equals no
  episode's id.
\<close>

definition currentEpisode :: "episode list option \<Rightarrow> string option \<Rightarrow> episode option" where
  "currentEpisode episodes currentEpisodeId =
     (case episodes of
        None \<Rightarrow> None
      | Some eps \<Rightarrow> find (\<lambda>ep. Some (ep_id ep) = currentEpisodeId) eps)"

text \<open>
  \<^verbatim>\<open>const effectiveAccessType = currentEpisode?.access || accessType;\<close>
  The three tier strings are all truthy, so the right operand is taken exactly when
  there is no current episode or it has no tier.
\<close>

definition effectiveAccessType ::
  "episode list option \<Rightarrow> string option \<Rightarrow> access option \<Rightarrow> access option" where
  "effectiveAccessType episodes currentEpisodeId contentAccess =
     (case currentEpisode episodes currentEpisodeId of
        None \<Rightarrow> contentAccess
      | Some ep \<Rightarrow> (case ep_access ep of None \<Rightarrow> contentAccess | Some a \<Rightarrow> Some a))"

section \<open>The normalised source list (ShakaPlayer, the sources memo)\<close>

text \<open>
  \<^verbatim>\<open>
  const rawSources = videoSources || (src ? [{ id: "default", server_name: "Default",
      source_type: type, url: src, is_default: true }] : []);
  \<close>
  An array is truthy even when empty.
\<close>

definition rawSources :: "player \<Rightarrow> raw_source list" where
  "rawSources p =
     (case videoSources p of
        Some vs \<Rightarrow> vs
      | None \<Rightarrow>
          if truthy_str (src p)
          then [\<lparr>raw_id = Some ''default'', raw_server_name = Some ''Default'',
                 raw_source_type = Some (type_name (type_prop p)), raw_url = src p,
                 raw_quality_urls = JUndefined, raw_mp4Urls = JUndefined,
                 raw_quality = None, raw_is_default = Some True,
                 raw_version = None, raw_permission = None\<rparr>]
          else [])"

text \<open>
  \<^verbatim>\<open>
  const isFreeContent = accessType === 'free';
  return rawSources.map((source, index) => { ... });
  \<close>
\<close>

definition sources :: "player \<Rightarrow> video_source list" where
  "sources p =
     (let isFreeContent = (accessType p = Free)
      in map (\<lambda>(index, source). normalizeSource isFreeContent index source)
           (enumerate 0 (rawSources p)))"

section \<open>Numbers of the media element\<close>

text \<open>
  A JavaScript number as the media element reports it: not-a-number (the duration
  before metadata is known), the two infinities (the duration of a live stream), or a
  finite value, a real number that is a double.
\<close>

datatype number = NaN | PosInfinity | NegInfinity | Finite real

text \<open>
  Arithmetic on doubles rounds (IEEE 754 binary64, round to nearest, ties to even): the
  result is the multiple of the unit in the last place of the exact value that is
  nearest to it. The unit of a value in the binade \<open>2 ^ e \<le> \<bar>x\<bar> < 2 ^ (e + 1)\<close> is
  \<open>2 ^ (e - 52)\<close>, with \<open>e\<close> not below \<open>- 1022\<close> (subnormal numbers); a result of
  magnitude \<open>2 ^ 1024\<close> or more is an infinity.
\<close>

definition round_half_even :: "real \<Rightarrow> int" where
  "round_half_even z =
     (let f = \<lfloor>z\<rfloor>; r = z - of_int f
      in if r < 1 / 2 then f else if 1 / 2 < r then f + 1 else if even f then f else f + 1)"

definition ulp :: "real \<Rightarrow> real" where
  "ulp x = 2 powr (of_int (max \<lfloor>log 2 \<bar>x\<bar>\<rfloor> (- 1022)) - 52)"

definition nearest :: "real \<Rightarrow> real" where
  "nearest x = of_int (round_half_even (x / ulp x)) * ulp x"

definition huge :: real where
  "huge = 2 ^ 1024"

definition round_double :: "real \<Rightarrow> number" where
  "round_double x =
     (if x = 0 then Finite 0
      else if huge \<le> \<bar>nearest x\<bar> then (if 0 < x then PosInfinity else NegInfinity)
      else Finite (nearest x))"

text \<open>The operator \<^verbatim>\<open>-\<close> on numbers.\<close>

fun num_sub :: "number \<Rightarrow> number \<Rightarrow> number" where
  "num_sub (Finite a) (Finite b) = round_double (a - b)"
| "num_sub NaN y = NaN"
| "num_sub x NaN = NaN"
| "num_sub PosInfinity PosInfinity = NaN"
| "num_sub NegInfinity NegInfinity = NaN"
| "num_sub PosInfinity y = PosInfinity"
| "num_sub NegInfinity y = NegInfinity"
| "num_sub (Finite a) PosInfinity = NegInfinity"
| "num_sub (Finite a) NegInfinity = PosInfinity"

text \<open>The operator \<^verbatim>\<open><\<close> on numbers; it compares exactly.\<close>

fun num_less :: "number \<Rightarrow> number \<Rightarrow> bool" where
  "num_less (Finite a) (Finite b) = (a < b)"
| "num_less NaN y = False"
| "num_less x NaN = False"
| "num_less NegInfinity NegInfinity = False"
| "num_less NegInfinity y = True"
| "num_less x PosInfinity = (x \<noteq> PosInfinity)"
| "num_less x NegInfinity = False"
| "num_less PosInfinity y = False"

text \<open>\<^verbatim>\<open>!x\<close> holds of a number exactly for zero and not-a-number.\<close>

definition falsy_num :: "number \<Rightarrow> bool" where
  "falsy_num x = (x = Finite 0 \<or> x = NaN)"

definition isNaN :: "number \<Rightarrow> bool" where
  "isNaN x = (x = NaN)"

record video =
  duration :: number
  currentTime :: number
  readyState :: nat

section \<open>Progress tracking (ShakaPlayer, saveProgress)\<close>

text \<open>
  The two mutations \<^verbatim>\<open>saveProgress\<close> can send to the table \<^verbatim>\<open>watch_history\<close>: an update
  of the row found for the viewer and the content, or an insert of a new row.
\<close>

record progress_fields =
  progress :: number
  total :: number
  completed :: bool

datatype history_write =
  Update (row_id: string) (written: progress_fields) (last_watched_at: string)
| Insert (user_id: string) (episode_id: "string option") (movie_id: "string option")
    (written: progress_fields)

definition or_null :: "string option \<Rightarrow> string option" where
  "or_null v = (if truthy_str v then v else None)"

text \<open>
  \<^verbatim>\<open>
  const video = videoRef.current;
  if (!video || !video.duration || isNaN(video.duration)) return;
  const progress = video.currentTime;
  const duration = video.duration;
  const completed = (duration - progress) < 30;
  const { data: existing } = await supabase.from('watch_history').select('id') ... .maybeSingle();
  if (existing) { await ... .update({ progress, duration, completed, last_watched_at }).eq('id', existing.id); }
  else { await ... .insert({ user_id, episode_id: episodeId || null, movie_id: movieId || null,
                             progress, duration, completed }); }
  \<close>
  The interval callback and the final call of the effect's cleanup are this one closure.
  The answer of the select (\<open>existing\<close>, the id of the row found) and the time stamp are
  inputs; the result is the mutation sent, \<open>None\<close> when the function returns early.
\<close>

definition saveProgress ::
  "player \<Rightarrow> string \<Rightarrow> video option \<Rightarrow> string option \<Rightarrow> string \<Rightarrow> history_write option" where
  "saveProgress p userId videoRef existing now =
     (case videoRef of
        None \<Rightarrow> None
      | Some video \<Rightarrow>
          if falsy_num (duration video) \<or> isNaN (duration video) then None
          else
            (let progress = currentTime video;
                 duration = duration video;
                 completed = num_less (num_sub duration progress) (Finite 30);
                 payload = \<lparr>progress = progress, total = duration, completed = completed\<rparr>
             in case existing of
                  Some row \<Rightarrow> Some (Update row payload now)
                | None \<Rightarrow> Some (Insert userId (or_null (episodeId p)) (or_null (movieId p)) payload)))"

text \<open>
  The effect that owns the closure:
  \<^verbatim>\<open>
  if (!userId || (!episodeId && !movieId) || !videoRef.current) return;
  const saveProgress = async () => { ... };
  progressTrackingRef.current = setInterval(saveProgress, 10000);
  return () => { if (progressTrackingRef.current) {
      clearInterval(progressTrackingRef.current); saveProgress(); } };
  \<close>
  The interval and the final save exist only when the effect ran past its guard.
\<close>

definition trackingInstalled :: "player \<Rightarrow> string option \<Rightarrow> video option \<Rightarrow> bool" where
  "trackingInstalled p userId videoRef =
     (\<not> (\<not> truthy_str userId \<or> (\<not> truthy_str (episodeId p) \<and> \<not> truthy_str (movieId p))
         \<or> videoRef = None))"

text \<open>
  A periodic or final save of the installed tracking: \<open>videoAtEffect\<close> is the media
  element when the effect ran, \<open>videoRef\<close> the media element when the save runs.
\<close>

definition trackedSave ::
  "player \<Rightarrow> string option \<Rightarrow> video option \<Rightarrow> video option \<Rightarrow> string option \<Rightarrow> string
     \<Rightarrow> history_write option" where
  "trackedSave p userId videoAtEffect videoRef existing now =
     (case userId of
        None \<Rightarrow> None
      | Some u \<Rightarrow>
          if trackingInstalled p userId videoAtEffect
          then saveProgress p u videoRef existing now
          else None)"

section \<open>Resuming (ShakaPlayer, getUser and the resume effect)\<close>

text \<open>The columns \<^verbatim>\<open>progress, duration, completed\<close> selected from the stored row.\<close>

record history_data =
  h_progress :: number
  h_duration :: number
  h_completed :: bool

text \<open>
  \<^verbatim>\<open>
  if (user && (episodeId || movieId)) {
    const { data } = await ... .maybeSingle();
    if (data && !data.completed && data.progress > 10) { setSavedProgress(data.progress); }
  }
  \<close>
  The value of the state \<^verbatim>\<open>savedProgress\<close> afterwards; it starts as \<^verbatim>\<open>null\<close>. Here
  \<open>authUser\<close> is the answer of \<^verbatim>\<open>supabase.auth.getUser()\<close> and \<open>stored\<close> the row the select
  returns.
\<close>

definition loadSavedProgress ::
  "player \<Rightarrow> string option \<Rightarrow> history_data option \<Rightarrow> number option" where
  "loadSavedProgress p authUser stored =
     (if authUser \<noteq> None \<and> (truthy_str (episodeId p) \<or> truthy_str (movieId p))
      then (case stored of
              None \<Rightarrow> None
            | Some data \<Rightarrow>
                if \<not> h_completed data \<and> num_less (Finite 10) (h_progress data)
                then Some (h_progress data) else None)
      else None)"

text \<open>
  \<^verbatim>\<open>
  if (savedProgress !== null && videoRef.current && videoRef.current.readyState >= 2) {
    videoRef.current.currentTime = savedProgress;
    setSavedProgress(null);
  }
  \<close>
  The effect returns the media element and the state \<^verbatim>\<open>savedProgress\<close>.
\<close>

definition resumeEffect :: "number option \<Rightarrow> video option \<Rightarrow> video option \<times> number option" where
  "resumeEffect savedProgress videoRef =
     (case (savedProgress, videoRef) of
        (Some saved, Some video) \<Rightarrow>
          if readyState video \<ge> 2
          then (Some (video\<lparr>currentTime := saved\<rparr>), None)
          else (videoRef, savedProgress)
      | _ \<Rightarrow> (videoRef, savedProgress))"

section \<open>Protected sources and server switching (ShakaPlayer)\<close>

text \<open>
  The argument of \<^verbatim>\<open>getProtectedUrl\<close>, the backend exchange for a playable URL.
\<close>

record protected_request =
  req_sourceId :: string
  req_episodeId :: "string option"
  req_movieId :: "string option"
  req_mediaId :: "string option"
  req_mediaType :: "string option"
  req_accessType :: access
  req_excludeFromPlan :: bool

text \<open>
  Its answer \<^verbatim>\<open>{success, source?, error?}\<close>; the awaited value itself may be missing
  (\<^verbatim>\<open>result?.success\<close>). The source it carries has the shape of a video source.
\<close>

record protected_result =
  success :: bool
  result_source :: "video_source option"
  error :: "string option"

text \<open>
  The states of the component that only source selection and the protected fetch
  write. The field \<open>pending\<close> holds the requests whose \<^verbatim>\<open>await\<close> has not returned yet,
  oldest first: each is a suspended call of \<^verbatim>\<open>fetchProtectedSource\<close>. The states
  \<^verbatim>\<open>isLoading\<close>, \<^verbatim>\<open>availableQualities\<close> and \<^verbatim>\<open>currentQuality\<close>, which the playback engine
  writes as well, are left out.
\<close>

record player_state =
  currentSource :: "video_source option"
  protectedSource :: "video_source option"
  accessValidated :: bool
  accessError :: "string option"
  pending :: "protected_request list"

text \<open>The initial values of \<^verbatim>\<open>useState\<close>.\<close>

definition initial_state :: player_state where
  "initial_state =
     \<lparr>currentSource = None, protectedSource = None, accessValidated = False,
      accessError = None, pending = []\<rparr>"

text \<open>
  \<^verbatim>\<open>fetchProtectedSource\<close> up to its \<^verbatim>\<open>await\<close>:
  \<^verbatim>\<open>
  if (!source || !user) { setAccessError('Please log in to watch this content'); return; }
  setIsLoading(true);
  setAccessError(null);
  const result = await getProtectedUrl({ sourceId: source.id, episodeId, movieId, mediaId,
                                         mediaType, accessType, excludeFromPlan });
  \<close>
\<close>

definition protectedRequest :: "player \<Rightarrow> video_source \<Rightarrow> protected_request" where
  "protectedRequest p source =
     \<lparr>req_sourceId = vs_id source, req_episodeId = episodeId p, req_movieId = movieId p,
      req_mediaId = mediaId p, req_mediaType = mediaType p, req_accessType = accessType p,
      req_excludeFromPlan = excludeFromPlan p\<rparr>"

definition fetchProtectedSource_call ::
  "player \<Rightarrow> video_source option \<Rightarrow> player_state \<Rightarrow> player_state" where
  "fetchProtectedSource_call p source st =
     (case source of
        None \<Rightarrow> st\<lparr>accessError := Some ''Please log in to watch this content''\<rparr>
      | Some s \<Rightarrow>
          if user p = None
          then st\<lparr>accessError := Some ''Please log in to watch this content''\<rparr>
          else st\<lparr>accessError := None, pending := pending st @ [protectedRequest p s]\<rparr>)"

text \<open>
  \<^verbatim>\<open>fetchProtectedSource\<close> from the moment its \<^verbatim>\<open>await\<close> returns:
  \<^verbatim>\<open>
  if (result?.success && result.source) {
    const sourceType = normalizeType(result.source.source_type, result.source.url);
    const validatedSource = { id: result.source.id, server_name: result.source.server_name,
      source_type: result.source.source_type, type: sourceType, url: result.source.url,
      quality_urls: result.source.quality_urls, quality: result.source.quality,
      is_default: result.source.is_default };
    setProtectedSource(validatedSource);
    setAccessValidated(true);
    if (sourceType === "mp4" && result.source.quality_urls) { ... }
  } else {
    setAccessError(result?.error || 'Failed to load video');
    setAccessValidated(false);
  }
  \<close>
  Neither branch reads \<^verbatim>\<open>currentSource\<close> or the source the call was made for.
\<close>

definition validatedSource :: "video_source \<Rightarrow> video_source" where
  "validatedSource rs =
     \<lparr>vs_id = vs_id rs, server_name = server_name rs, source_type = source_type rs,
      vs_type = normalizeType (Some (source_type rs)) (url rs),
      url = url rs, quality_urls = quality_urls rs, quality = quality rs,
      is_default = is_default rs, version = None, permission = None\<rparr>"

definition fetchProtectedSource_resume ::
  "protected_result option \<Rightarrow> player_state \<Rightarrow> player_state" where
  "fetchProtectedSource_resume result st =
     (case result of
        None \<Rightarrow> st\<lparr>accessError := Some ''Failed to load video'', accessValidated := False\<rparr>
      | Some r \<Rightarrow>
          (case (success r, result_source r) of
             (True, Some rs) \<Rightarrow>
               st\<lparr>protectedSource := Some (validatedSource rs), accessValidated := True\<rparr>
           | _ \<Rightarrow>
               st\<lparr>accessError := Some (or_str (error r) ''Failed to load video''),
                  accessValidated := False\<rparr>))"

text \<open>
  The answers that enter the branch elided above, which sets the quality states: an MP4
  answer that carries a quality map.
\<close>

definition setsQualities :: "protected_result option \<Rightarrow> bool" where
  "setsQualities result =
     (case result of
        None \<Rightarrow> False
      | Some r \<Rightarrow>
          (case (success r, result_source r) of
             (True, Some rs) \<Rightarrow> vs_type (validatedSource rs) = Mp4 \<and> quality_urls rs \<noteq> None
           | _ \<Rightarrow> False))"

text \<open>
  The effect that initialises the selection, run when the source list changes:
  \<^verbatim>\<open>
  if (sources && sources.length > 0) {
    setIsLoading(true);
    setAccessValidated(false);
    setAccessError(null);
    setProtectedSource(null);
    const defaultSource = sources.find(s => s.is_default) || sources[0];
    setCurrentSource(defaultSource);
    ...
  }
  \<close>
  The elided part sets the quality states for a free MP4 source.
\<close>

definition defaultSource :: "video_source list \<Rightarrow> video_source option" where
  "defaultSource srcs =
     (case find (\<lambda>s. is_default s = Some True) srcs of
        Some s \<Rightarrow> Some s
      | None \<Rightarrow> (case srcs of [] \<Rightarrow> None | s # rest \<Rightarrow> Some s))"

definition initDefaultSource :: "player \<Rightarrow> player_state \<Rightarrow> player_state" where
  "initDefaultSource p st =
     (case defaultSource (sources p) of
        None \<Rightarrow> st
      | Some s \<Rightarrow>
          st\<lparr>accessValidated := False, accessError := None, protectedSource := None,
             currentSource := Some s\<rparr>)"

text \<open>
  The effect that watches \<^verbatim>\<open>currentSource\<close>:
  \<^verbatim>\<open>
  if (subscriptionLoading || rentalLoading) { return; }
  const isFreeContent = accessType === 'free';
  if (currentSource && !isFreeContent && !isLocked && user) {
    fetchProtectedSource(currentSource);
  } else if (currentSource && isFreeContent) {
    setAccessValidated(true);
    setProtectedSource(currentSource);
  } else if (currentSource && isLocked) {
    setIsLoading(false);
  }
  \<close>
\<close>

definition sourceEffect :: "player \<Rightarrow> player_state \<Rightarrow> player_state" where
  "sourceEffect p st =
     (if subscriptionLoading p \<or> rentalLoading p then st
      else
        (let isFreeContent = (accessType p = Free)
         in case currentSource st of
              None \<Rightarrow> st
            | Some s \<Rightarrow>
                if \<not> isFreeContent \<and> \<not> isLocked p \<and> user p \<noteq> None
                then fetchProtectedSource_call p (Some s) st
                else if isFreeContent
                then st\<lparr>accessValidated := True, protectedSource := Some s\<rparr>
                else st))"

text \<open>
  Mounting: the first effect selects the default source, and the render that follows
  runs the second effect for it.
\<close>

definition mount :: "player \<Rightarrow> player_state" where
  "mount p = sourceEffect p (initDefaultSource p initial_state)"

text \<open>
  The handler of the server menu:
  \<^verbatim>\<open>
  setCurrentSource(source);
  setAccessValidated(false);
  setProtectedSource(null);
  const isFreeContent = accessType === 'free';
  if (!isFreeContent && user) { await fetchProtectedSource(source); }
  else if (isFreeContent) { setProtectedSource(source); setAccessValidated(true); }
  \<close>
  The handler does nothing after its \<^verbatim>\<open>await\<close>, so it ends where the fetch is suspended.
\<close>

definition handleServerChange :: "player \<Rightarrow> video_source \<Rightarrow> player_state \<Rightarrow> player_state" where
  "handleServerChange p source st =
     (let st1 = st\<lparr>currentSource := Some source, accessValidated := False,
                    protectedSource := None\<rparr>;
          isFreeContent = (accessType p = Free)
      in if \<not> isFreeContent \<and> user p \<noteq> None then fetchProtectedSource_call p (Some source) st1
         else if isFreeContent then st1\<lparr>protectedSource := Some source, accessValidated := True\<rparr>
         else st1)"

text \<open>
  The browser's event loop after mounting, for fixed props and hook values (among them
  a stable \<^verbatim>\<open>getProtectedUrl\<close>, so that only a new selection re-runs the effect). The viewer
  picks an entry of the server menu, which lists \<open>sources\<close> and is rendered only once a
  source is selected (\<^verbatim>\<open>if (!currentSource) return null\<close>): the handler runs, and when
  the selection has changed the render that follows runs the effect that watches
  \<^verbatim>\<open>currentSource\<close>. Or the answer to the pending request at some position arrives and
  the suspended fetch continues; answers may arrive in any order. The result is \<open>None\<close>
  for an event that cannot happen in the state and for an answer that sets the quality
  states, which are not modelled (a change of \<^verbatim>\<open>currentQuality\<close> runs the effect once
  more).
\<close>

datatype event = ServerChange video_source | Response nat "protected_result option"

fun step :: "player \<Rightarrow> player_state \<Rightarrow> event \<Rightarrow> player_state option" where
  "step p st (ServerChange source) =
     (if currentSource st = None \<or> source \<notin> set (sources p) then None
      else if currentSource st = Some source then Some (handleServerChange p source st)
      else Some (sourceEffect p (handleServerChange p source st)))"
| "step p st (Response i result) =
     (if length (pending st) \<le> i \<or> setsQualities result then None
      else Some (fetchProtectedSource_resume result
                   (st\<lparr>pending := take i (pending st) @ drop (Suc i) (pending st)\<rparr>)))"

fun run :: "player \<Rightarrow> player_state \<Rightarrow> event list \<Rightarrow> player_state option" where
  "run p st [] = Some st"
| "run p st (e # es) = (case step p st e of None \<Rightarrow> None | Some st' \<Rightarrow> run p st' es)"

section \<open>Example values\<close>

text \<open>Two descriptors of one title, the second with the serialised-undefined marker.\<close>

definition server_a :: raw_source where
  "server_a =
     \<lparr>raw_id = Some ''a1'', raw_server_name = Some ''Alpha'', raw_source_type = Some ''mp4'',
      raw_url = Some ''//cdn.tv/v/main.mp4'',
      raw_quality_urls = JObject [(''720p'', ''//cdn.tv/v/720.mp4''),
                                  (''480p'', ''//cdn.tv/v/480.mp4'')],
      raw_mp4Urls = JUndefined, raw_quality = Some ''720p'', raw_is_default = Some True,
      raw_version = None, raw_permission = None\<rparr>"

definition server_b :: raw_source where
  "server_b =
     \<lparr>raw_id = Some ''b2'', raw_server_name = Some ''Beta'', raw_source_type = Some ''mp4'',
      raw_url = Some ''//cdn.tv/w/main.mp4'',
      raw_quality_urls = JObject [(''_type'', ''undefined''),
                                  (''720p'', ''//cdn.tv/w/720.mp4'')],
      raw_mp4Urls = JUndefined, raw_quality = None, raw_is_default = None,
      raw_version = None, raw_permission = None\<rparr>"

text \<open>A signed-in viewer of a movie with both servers; everything resolved.\<close>

definition demo_player :: player where
  "demo_player =
     \<lparr>videoSources = Some [server_a, server_b], src = None, type_prop = Hls,
      episodeId = None, movieId = Some ''m7'', accessType = Free, excludeFromPlan = False,
      mediaId = Some ''m7'', mediaType = Some ''movie'', user = Some ''u1'',
      hasActiveSubscription = False, subscriptionLoading = False,
      hasActiveRental = False, rentalLoading = False\<rparr>"

text \<open>Entitlement still resolving: one of the hooks has not answered yet.\<close>

definition gate_rent_exclude_loading :: player where
  "gate_rent_exclude_loading =
     demo_player\<lparr>accessType := Rent, excludeFromPlan := True, rentalLoading := True\<rparr>"

definition gate_rent_plan_loading :: player where
  "gate_rent_plan_loading =
     demo_player\<lparr>accessType := Rent, excludeFromPlan := False, subscriptionLoading := True\<rparr>"

text \<open>A subscriber without a rental, and a viewer with neither.\<close>

definition gate_subscriber :: "access \<Rightarrow> bool \<Rightarrow> player" where
  "gate_subscriber a ex =
     demo_player\<lparr>accessType := a, excludeFromPlan := ex, hasActiveSubscription := True\<rparr>"

definition gate_visitor :: "access \<Rightarrow> bool \<Rightarrow> player" where
  "gate_visitor a ex = demo_player\<lparr>accessType := a, excludeFromPlan := ex\<rparr>"

definition demo_episodes :: "episode list" where
  "demo_episodes =
     [\<lparr>ep_id = ''e1'', episode_number = 1, ep_name = ''Pilot'', still_path = None,
       ep_access = Some Free\<rparr>,
      \<lparr>ep_id = ''e2'', episode_number = 2, ep_name = ''Second'', still_path = None,
       ep_access = None\<rparr>]"

definition fresh_video :: video where
  "fresh_video = \<lparr>duration = Finite 1500, currentTime = Finite 0, readyState = 4\<rparr>"

text \<open>
  The same title as rented content, the viewer holding the rental; the two servers as the
  page lists them for paid content (no URLs), and the backend's answers for them.
\<close>

definition paid_player :: player where
  "paid_player = demo_player\<lparr>accessType := Rent, hasActiveRental := True\<rparr>"

definition alpha :: video_source where
  "alpha = sources paid_player ! 0"

definition beta :: video_source where
  "beta = sources paid_player ! 1"

definition answer :: "video_source \<Rightarrow> string \<Rightarrow> protected_result option" where
  "answer source link =
     Some \<lparr>success = True, result_source = Some (source\<lparr>url := Some link\<rparr>), error = None\<rparr>"

text \<open>
  After mounting, with the request for the default server Alpha pending, the viewer
  picks Beta; Beta's two answers arrive first, Alpha's afterwards.
\<close>

definition late_answer :: "event list" where
  "late_answer =
     [ServerChange beta,
      Response 1 (answer beta ''//cdn.tv/w/main.mp4''),
      Response 1 (answer beta ''//cdn.tv/w/main.mp4''),
      Response 0 (answer alpha ''//cdn.tv/v/main.mp4'')]"

text \<open>The media element half a minute before the end, up to a rounding error.\<close>

definition ending_video :: video where
  "ending_video = \<lparr>duration = Finite 30, currentTime = Finite (1 / 2 ^ 60), readyState = 4\<rparr>"

text \<open>A stored row of the table for this title: seconds watched and the completed flag.\<close>

definition stored_row :: "real \<Rightarrow> bool \<Rightarrow> history_data" where
  "stored_row x c = \<lparr>h_progress = Finite x, h_duration = Finite 1500, h_completed = c\<rparr>"

section \<open>Properties of the access gate\<close>

text \<open>
  C6. Whatever the access tier, the exclude flag and the entitlement flags are, while
  the subscription status or the rental status is still loading the gate reports the
  content as not locked.
\<close>

theorem isLocked_while_loading:
  "subscriptionLoading p \<or> rentalLoading p \<Longrightarrow> isLocked p = False"
  by (auto simp: isLocked_def)

theorem isLocked_while_loading_witness:
  "(subscriptionLoading gate_rent_exclude_loading \<or> rentalLoading gate_rent_exclude_loading)
   \<and> isLocked gate_rent_exclude_loading = False"
  using isLocked_while_loading [of gate_rent_exclude_loading]
  by (simp add: gate_rent_exclude_loading_def demo_player_def)

text \<open>
  C2 as stated fails while the rental status is loading: tier rent, excluded from the
  plan, no active rental, and yet the gate does not report the content locked.
\<close>

theorem rent_exclude_loading_counterexample:
  "accessType gate_rent_exclude_loading = Rent
   \<and> excludeFromPlan gate_rent_exclude_loading
   \<and> \<not> hasActiveRental gate_rent_exclude_loading
   \<and> \<not> isLocked gate_rent_exclude_loading"
  by (simp add: gate_rent_exclude_loading_def demo_player_def isLocked_def)

text \<open>
  C2, amended. Once neither the subscription status nor the rental status is loading,
  for tier rent with the exclude-from-plan flag set the gate reports the content locked
  if and only if there is no active rental; the subscription flag has no influence, so
  an active subscription alone never unlocks it.
\<close>

theorem isLocked_rent_exclude:
  "\<not> subscriptionLoading p \<Longrightarrow> \<not> rentalLoading p \<Longrightarrow>
   accessType p = Rent \<Longrightarrow> excludeFromPlan p \<Longrightarrow>
   isLocked p = (\<not> hasActiveRental p)
   \<and> isLocked (p\<lparr>hasActiveSubscription := True\<rparr>) = (\<not> hasActiveRental p)"
  by (simp add: isLocked_def)

theorem isLocked_rent_exclude_witness:
  "\<not> subscriptionLoading (gate_subscriber Rent True)
   \<and> \<not> rentalLoading (gate_subscriber Rent True)
   \<and> accessType (gate_subscriber Rent True) = Rent
   \<and> excludeFromPlan (gate_subscriber Rent True)
   \<and> hasActiveSubscription (gate_subscriber Rent True)
   \<and> isLocked (gate_subscriber Rent True)"
  using isLocked_rent_exclude [of "gate_subscriber Rent True"]
  by (simp add: gate_subscriber_def demo_player_def)

text \<open>
  C3 as stated fails while the subscription status is loading: tier rent, not excluded
  from the plan, neither subscription nor rental, and the gate reports the content
  unlocked.
\<close>

theorem rent_plan_loading_counterexample:
  "accessType gate_rent_plan_loading = Rent
   \<and> \<not> excludeFromPlan gate_rent_plan_loading
   \<and> \<not> hasActiveSubscription gate_rent_plan_loading
   \<and> \<not> hasActiveRental gate_rent_plan_loading
   \<and> \<not> isLocked gate_rent_plan_loading"
  by (simp add: gate_rent_plan_loading_def demo_player_def isLocked_def)

text \<open>
  C3, amended. For tier rent with the exclude-from-plan flag false the gate reports the
  content unlocked whenever an active subscription or an active rental exists, and it
  reports it locked when neither exists and neither status is still loading.
\<close>

theorem isLocked_rent_plan:
  "accessType p = Rent \<Longrightarrow> \<not> excludeFromPlan p \<Longrightarrow>
   (hasActiveSubscription p \<or> hasActiveRental p \<longrightarrow> \<not> isLocked p)
   \<and> (\<not> hasActiveSubscription p \<and> \<not> hasActiveRental p
        \<and> \<not> subscriptionLoading p \<and> \<not> rentalLoading p \<longrightarrow> isLocked p)"
  by (simp add: isLocked_def)

theorem isLocked_rent_plan_witness:
  "accessType (gate_subscriber Rent False) = Rent
   \<and> \<not> excludeFromPlan (gate_subscriber Rent False)
   \<and> hasActiveSubscription (gate_subscriber Rent False)
   \<and> \<not> isLocked (gate_subscriber Rent False)
   \<and> \<not> hasActiveSubscription (gate_visitor Rent False)
   \<and> \<not> hasActiveRental (gate_visitor Rent False)
   \<and> \<not> subscriptionLoading (gate_visitor Rent False)
   \<and> \<not> rentalLoading (gate_visitor Rent False)
   \<and> isLocked (gate_visitor Rent False)"
  using isLocked_rent_plan [of "gate_subscriber Rent False"]
    isLocked_rent_plan [of "gate_visitor Rent False"]
  by (simp add: gate_subscriber_def gate_visitor_def demo_player_def)

section \<open>Properties of the effective access tier\<close>

text \<open>
  C9. When the selected episode is found in the episode list and carries a tier of its
  own, the tier handed to the player is the episode's tier; when no episode is selected
  or found, or the episode carries no tier, it is the content-level tier.
\<close>

theorem effectiveAccessType_override:
  "(currentEpisode episodes currentEpisodeId = Some ep \<and> ep_access ep = Some a
      \<longrightarrow> effectiveAccessType episodes currentEpisodeId contentAccess = Some a)
   \<and> (currentEpisode episodes currentEpisodeId = Some ep \<and> ep_access ep = None
      \<longrightarrow> effectiveAccessType episodes currentEpisodeId contentAccess = contentAccess)
   \<and> (currentEpisode episodes currentEpisodeId = None
      \<longrightarrow> effectiveAccessType episodes currentEpisodeId contentAccess = contentAccess)"
  by (simp add: effectiveAccessType_def)

theorem effectiveAccessType_override_witness:
  "currentEpisode (Some demo_episodes) (Some ''e1'') = Some (demo_episodes ! 0)
   \<and> ep_access (demo_episodes ! 0) = Some Free
   \<and> effectiveAccessType (Some demo_episodes) (Some ''e1'') (Some Vip) = Some Free
   \<and> currentEpisode (Some demo_episodes) (Some ''e2'') = Some (demo_episodes ! 1)
   \<and> ep_access (demo_episodes ! 1) = None
   \<and> effectiveAccessType (Some demo_episodes) (Some ''e2'') (Some Vip) = Some Vip
   \<and> currentEpisode (Some demo_episodes) (Some ''e9'') = None
   \<and> effectiveAccessType (Some demo_episodes) (Some ''e9'') (Some Vip) = Some Vip"
  using effectiveAccessType_override
    [of "Some demo_episodes" "Some ''e1''" "demo_episodes ! 0" Free "Some Vip"]
    effectiveAccessType_override
    [of "Some demo_episodes" "Some ''e2''" "demo_episodes ! 1" Free "Some Vip"]
    effectiveAccessType_override
    [of "Some demo_episodes" "Some ''e9''" "demo_episodes ! 0" Free "Some Vip"]
  by (simp add: currentEpisode_def demo_episodes_def)

section \<open>Properties of the stream-kind resolver\<close>

text \<open>
  Lower-casing a capital adds 32 to its code, as the definition of \<open>toLowerChar\<close> claims.
\<close>

lemma toLowerChar_add32:
  "isUpperCase c \<Longrightarrow> (of_char (toLowerChar c) :: nat) = of_char c + 32"
proof (cases c)
  case (Char b0 b1 b2 b3 b4 b5 b6 b7)
  assume "isUpperCase c"
  with Char show ?thesis
    by (cases b0; cases b1; cases b2; cases b3; cases b4; cases b5; cases b6; cases b7)
      (simp_all add: toLowerChar_def isUpperCase_def)
qed

lemma suffix_last: "suffix (xs @ [x]) u \<Longrightarrow> last u = x"
  by (auto simp: suffix_def)

lemma endsWith_exclusive:
  "endsWith u ''.mpd'' \<Longrightarrow> \<not> endsWith u ''.m3u8''"
  "endsWith u ''.mp4'' \<Longrightarrow> \<not> endsWith u ''.m3u8''"
  "endsWith u ''.mp4'' \<Longrightarrow> \<not> endsWith u ''.mpd''"
  using suffix_last [of "''.mp''" "CHR ''d''" u] suffix_last [of "''.m3u''" "CHR ''8''" u]
    suffix_last [of "''.mp''" "CHR ''4''" u]
  by (auto simp: endsWith_def)

lemma normalizeType_known:
  assumes "trim (toLowerCase tag) = t"
  shows "t \<in> {''embed'', ''iframe''} \<Longrightarrow> normalizeType (Some tag) rawUrl = Iframe"
    and "t = ''mp4'' \<Longrightarrow> normalizeType (Some tag) rawUrl = Mp4"
    and "t \<in> {''hls'', ''m3u8''} \<Longrightarrow> normalizeType (Some tag) rawUrl = Hls"
    and "t = ''dash'' \<Longrightarrow> normalizeType (Some tag) rawUrl = Dash"
proof -
  have ne: "t \<noteq> [] \<Longrightarrow> or_str (Some tag) '''' = tag"
    using assms by (auto simp: or_str_def toLowerCase_def trim_def)
  show "t \<in> {''embed'', ''iframe''} \<Longrightarrow> normalizeType (Some tag) rawUrl = Iframe"
    using assms ne by (auto simp: normalizeType_def)
  show "t = ''mp4'' \<Longrightarrow> normalizeType (Some tag) rawUrl = Mp4"
    using assms ne by (auto simp: normalizeType_def)
  show "t \<in> {''hls'', ''m3u8''} \<Longrightarrow> normalizeType (Some tag) rawUrl = Hls"
    using assms ne by (auto simp: normalizeType_def)
  show "t = ''dash'' \<Longrightarrow> normalizeType (Some tag) rawUrl = Dash"
    using assms ne by (auto simp: normalizeType_def)
qed

lemma normalizeType_fallback:
  assumes "trim (toLowerCase (or_str rawType '''')) \<notin>
             {''embed'', ''iframe'', ''mp4'', ''hls'', ''m3u8'', ''dash''}"
  shows "normalizeType rawType rawUrl =
     (let u = toLowerCase (or_str rawUrl '''')
      in if endsWith u ''.m3u8'' then Hls
         else if endsWith u ''.mpd'' then Dash
         else if endsWith u ''.mp4'' then Mp4
         else if includes_str u ''youtube.com'' \<or> includes_str u ''youtu.be''
                 \<or> includes_str u ''player.'' \<or> includes_str u ''embed'' then Iframe
         else Hls)"
  using assms unfolding normalizeType_def Let_def by simp

text \<open>
  The definitions that evaluate the string functions on literals.
\<close>

lemmas string_eval =
  toLowerCase_def toLowerChar_def isUpperCase_def trim_def isWhiteSpace_def
  or_str_def endsWith_def includes_str_def suffix_to_prefix sublist_code

text \<open>
  C5 as stated fails for a tag with white space around it: the tag \<^verbatim>\<open>" MP4 "\<close> is not,
  ignoring case, one of the six tags, the URL ends in .m3u8, and the resolver answers
  with the file kind instead of falling back to the URL suffix.
\<close>

theorem padded_tag_counterexample:
  "toLowerCase '' MP4 '' \<notin> {''embed'', ''iframe'', ''mp4'', ''hls'', ''m3u8'', ''dash''}
   \<and> endsWith (toLowerCase ''//h.tv/a.m3u8'') ''.m3u8''
   \<and> normalizeType (Some '' MP4 '') (Some ''//h.tv/a.m3u8'') = Mp4"
  by (simp add: normalizeType_def string_eval)

text \<open>
  C5, amended. A type tag that, with the white space around it removed and ignoring
  case, is one of embed, iframe, mp4, hls, m3u8 or dash decides the kind whatever the URL
  looks like: embed and iframe give the embed kind (which the resolver writes
  \<^verbatim>\<open>"iframe"\<close>), mp4 the file kind, hls and m3u8 adaptive HLS, dash adaptive DASH. When
  the tag is absent or, trimmed and lower-cased, none of the six, the lower-cased URL
  decides: the suffix .m3u8 gives HLS, .mpd gives DASH, .mp4 gives the file kind; without
  such a suffix a URL containing youtube.com, youtu.be, player. or embed gives the embed
  kind, and any other URL gives adaptive HLS.
\<close>

theorem normalizeType_resolution:
  "(trim (toLowerCase tag) \<in> {''embed'', ''iframe''} \<longrightarrow>
      normalizeType (Some tag) rawUrl = Iframe)
   \<and> (trim (toLowerCase tag) = ''mp4'' \<longrightarrow> normalizeType (Some tag) rawUrl = Mp4)
   \<and> (trim (toLowerCase tag) \<in> {''hls'', ''m3u8''} \<longrightarrow>
      normalizeType (Some tag) rawUrl = Hls)
   \<and> (trim (toLowerCase tag) = ''dash'' \<longrightarrow> normalizeType (Some tag) rawUrl = Dash)
   \<and> (rawType = None \<or> trim (toLowerCase (or_str rawType ''''))
          \<notin> {''embed'', ''iframe'', ''mp4'', ''hls'', ''m3u8'', ''dash''} \<longrightarrow>
        (let u = toLowerCase (or_str rawUrl '''')
         in (endsWith u ''.m3u8'' \<longrightarrow> normalizeType rawType rawUrl = Hls)
            \<and> (endsWith u ''.mpd'' \<longrightarrow> normalizeType rawType rawUrl = Dash)
            \<and> (endsWith u ''.mp4'' \<longrightarrow> normalizeType rawType rawUrl = Mp4)
            \<and> (\<not> endsWith u ''.m3u8'' \<and> \<not> endsWith u ''.mpd'' \<and> \<not> endsWith u ''.mp4'' \<longrightarrow>
                 normalizeType rawType rawUrl =
                   (if includes_str u ''youtube.com'' \<or> includes_str u ''youtu.be''
                       \<or> includes_str u ''player.'' \<or> includes_str u ''embed''
                    then Iframe else Hls))))"
proof -
  have absent: "trim (toLowerCase (or_str None ''''))
      \<notin> {''embed'', ''iframe'', ''mp4'', ''hls'', ''m3u8'', ''dash''}"
    by (simp add: or_str_def toLowerCase_def trim_def)
  have fb: "normalizeType rawType rawUrl =
     (let u = toLowerCase (or_str rawUrl '''')
      in if endsWith u ''.m3u8'' then Hls
         else if endsWith u ''.mpd'' then Dash
         else if endsWith u ''.mp4'' then Mp4
         else if includes_str u ''youtube.com'' \<or> includes_str u ''youtu.be''
                 \<or> includes_str u ''player.'' \<or> includes_str u ''embed'' then Iframe
         else Hls)"
    if "rawType = None \<or> trim (toLowerCase (or_str rawType ''''))
          \<notin> {''embed'', ''iframe'', ''mp4'', ''hls'', ''m3u8'', ''dash''}"
    using that absent normalizeType_fallback [of rawType rawUrl] by auto
  show ?thesis
    using normalizeType_known [OF refl, of tag rawUrl] fb endsWith_exclusive
    by (auto simp: Let_def)
qed

theorem normalizeType_resolution_witness:
  "normalizeType (Some ''IFrame'') (Some ''//h.tv/a.mp4'') = Iframe
   \<and> normalizeType (Some '' MP4 '') (Some ''//h.tv/a.m3u8'') = Mp4
   \<and> normalizeType (Some ''M3U8'') (Some ''//h.tv/a.mp4'') = Hls
   \<and> normalizeType (Some ''Dash '') (Some ''//youtu.be/x'') = Dash
   \<and> normalizeType None (Some ''//h.tv/A.M3U8'') = Hls
   \<and> normalizeType (Some ''auto'') (Some ''//h.tv/a.mpd'') = Dash
   \<and> normalizeType (Some '''') (Some ''//player.tv/a.mp4'') = Mp4
   \<and> normalizeType None (Some ''//youtu.be/x'') = Iframe
   \<and> normalizeType None (Some ''//h.tv/a'') = Hls"
proof -
  have "normalizeType (Some ''IFrame'') (Some ''//h.tv/a.mp4'') = Iframe"
    using normalizeType_resolution [of "''IFrame''" "Some ''//h.tv/a.mp4''" "Some ''mp4''"]
    by (simp add: string_eval)
  moreover have "normalizeType (Some '' MP4 '') (Some ''//h.tv/a.m3u8'') = Mp4"
    using normalizeType_resolution [of "'' MP4 ''" "Some ''//h.tv/a.m3u8''" "Some ''mp4''"]
    by (simp add: string_eval)
  moreover have "normalizeType (Some ''M3U8'') (Some ''//h.tv/a.mp4'') = Hls"
    using normalizeType_resolution [of "''M3U8''" "Some ''//h.tv/a.mp4''" "Some ''mp4''"]
    by (simp add: string_eval)
  moreover have "normalizeType (Some ''Dash '') (Some ''//youtu.be/x'') = Dash"
    using normalizeType_resolution [of "''Dash ''" "Some ''//youtu.be/x''" "Some ''mp4''"]
    by (simp add: string_eval)
  moreover have "normalizeType None (Some ''//h.tv/A.M3U8'') = Hls"
    using normalizeType_resolution [of "''x''" "Some ''//h.tv/A.M3U8''" None]
    by (simp add: string_eval)
  moreover have "normalizeType (Some ''auto'') (Some ''//h.tv/a.mpd'') = Dash"
    using normalizeType_resolution [of "''x''" "Some ''//h.tv/a.mpd''" "Some ''auto''"]
    by (simp add: string_eval)
  moreover have "normalizeType (Some '''') (Some ''//player.tv/a.mp4'') = Mp4"
    using normalizeType_resolution [of "''x''" "Some ''//player.tv/a.mp4''" "Some ''''"]
    by (simp add: string_eval)
  moreover have "normalizeType None (Some ''//youtu.be/x'') = Iframe"
    using normalizeType_resolution [of "''x''" "Some ''//youtu.be/x''" None]
    by (simp add: string_eval)
  moreover have "normalizeType None (Some ''//h.tv/a'') = Hls"
    using normalizeType_resolution [of "''x''" "Some ''//h.tv/a''" None]
    by (simp add: string_eval)
  ultimately show ?thesis by blast
qed

section \<open>Properties of the source normalisation\<close>

lemma sources_nth:
  "i < length (rawSources p) \<Longrightarrow>
   sources p ! i = normalizeSource (accessType p = Free) i (rawSources p ! i)"
  by (simp add: sources_def nth_enumerate_eq)

lemma length_sources: "length (sources p) = length (rawSources p)"
  by (simp add: sources_def)

lemma qualityUrls_object:
  "raw_quality_urls r = JObject kvs \<Longrightarrow>
   qualityUrls r = (if kvs = [] \<or> map_of kvs ''_type'' = Some ''undefined'' then None else Some kvs)"
  by (simp add: qualityUrls_def or_value_def)

text \<open>
  C1 as stated fails for free content: the second descriptor carries a quality-URL map
  with a real entry and the marker entry \<^verbatim>\<open>_type: 'undefined'\<close>, and its normalised source
  has no quality-URL map.
\<close>

theorem sentinel_map_dropped_counterexample:
  "accessType demo_player = Free
   \<and> videoSources demo_player = Some [server_a, server_b]
   \<and> raw_quality_urls server_b =
       JObject [(''_type'', ''undefined''), (''720p'', ''//cdn.tv/w/720.mp4'')]
   \<and> quality_urls (sources demo_player ! 1) = None"
  by (simp add: demo_player_def server_b_def sources_def rawSources_def enumerate_eq_zip
      normalizeSource_def Let_def qualityUrls_def or_value_def)

text \<open>
  C1, amended. For every list of descriptors and every position in it: the normalised
  list has the same length; when the tier is free the normalised source keeps the url,
  and keeps the quality-URL map if that map is not empty and has no entry
  \<^verbatim>\<open>_type: 'undefined'\<close>, while an empty or so marked map becomes absent; when the tier is
  not free both the url and the quality-URL map are absent. Whatever the tier, a
  non-empty id, server name and declared kind are kept, and the resolved kind is the
  one \<open>normalizeType\<close> gives for the declared kind and the url.
\<close>

theorem sources_tier_policy:
  assumes "videoSources p = Some xs" and "i < length xs"
  shows "length (sources p) = length xs
   \<and> (accessType p = Free \<longrightarrow>
        url (sources p ! i) = raw_url (xs ! i)
        \<and> (raw_quality_urls (xs ! i) = JObject kvs \<and> kvs \<noteq> []
             \<and> map_of kvs ''_type'' \<noteq> Some ''undefined'' \<longrightarrow>
            quality_urls (sources p ! i) = Some kvs)
        \<and> (raw_quality_urls (xs ! i) = JObject kvs
             \<and> (kvs = [] \<or> map_of kvs ''_type'' = Some ''undefined'') \<longrightarrow>
            quality_urls (sources p ! i) = None))
   \<and> (accessType p \<noteq> Free \<longrightarrow>
        url (sources p ! i) = None \<and> quality_urls (sources p ! i) = None)
   \<and> (raw_id (xs ! i) = Some s \<and> s \<noteq> [] \<longrightarrow> vs_id (sources p ! i) = s)
   \<and> (raw_server_name (xs ! i) = Some n \<and> n \<noteq> [] \<longrightarrow> server_name (sources p ! i) = n)
   \<and> (raw_source_type (xs ! i) = Some t \<and> t \<noteq> [] \<longrightarrow> source_type (sources p ! i) = t)
   \<and> vs_type (sources p ! i) = normalizeType (raw_source_type (xs ! i)) (raw_url (xs ! i))"
proof -
  have raw: "rawSources p = xs"
    using assms(1) by (simp add: rawSources_def)
  have nth: "sources p ! i = normalizeSource (accessType p = Free) i (xs ! i)"
    using sources_nth [of i p] assms(2) raw by simp
  have len: "length (sources p) = length xs"
    using length_sources [of p] raw by simp
  show ?thesis
    unfolding nth len
    by (auto simp: normalizeSource_def Let_def or_str_def qualityUrls_object)
qed

theorem sources_tier_policy_witness:
  "url (sources demo_player ! 0) = Some ''//cdn.tv/v/main.mp4''
   \<and> quality_urls (sources demo_player ! 0) =
       Some [(''720p'', ''//cdn.tv/v/720.mp4''), (''480p'', ''//cdn.tv/v/480.mp4'')]
   \<and> quality_urls (sources demo_player ! 1) = None
   \<and> url (sources (demo_player\<lparr>accessType := Vip\<rparr>) ! 0) = None
   \<and> quality_urls (sources (demo_player\<lparr>accessType := Vip\<rparr>) ! 0) = None
   \<and> vs_id (sources (demo_player\<lparr>accessType := Vip\<rparr>) ! 0) = ''a1''
   \<and> server_name (sources (demo_player\<lparr>accessType := Vip\<rparr>) ! 0) = ''Alpha''
   \<and> source_type (sources (demo_player\<lparr>accessType := Vip\<rparr>) ! 0) = ''mp4''"
proof -
  have vs: "videoSources demo_player = Some [server_a, server_b]"
       "videoSources (demo_player\<lparr>accessType := Vip\<rparr>) = Some [server_a, server_b]"
    by (simp_all add: demo_player_def)
  have acc: "accessType demo_player = Free" "accessType (demo_player\<lparr>accessType := Vip\<rparr>) = Vip"
    by (simp_all add: demo_player_def)
  show ?thesis
    using sources_tier_policy [OF vs(1), of 0
        "[(''720p'', ''//cdn.tv/v/720.mp4''), (''480p'', ''//cdn.tv/v/480.mp4'')]"
        "''a1''" "''Alpha''" "''mp4''"]
      sources_tier_policy [OF vs(1), of 1
        "[(''_type'', ''undefined''), (''720p'', ''//cdn.tv/w/720.mp4'')]"
        "''b2''" "''Beta''" "''mp4''"]
      sources_tier_policy [OF vs(2), of 0
        "[(''720p'', ''//cdn.tv/v/720.mp4''), (''480p'', ''//cdn.tv/v/480.mp4'')]"
        "''a1''" "''Alpha''" "''mp4''"]
    by (simp add: acc server_a_def server_b_def)
qed

section \<open>Properties of rounding to a double\<close>

lemma round_half_even_cases:
  "round_half_even z = \<lfloor>z\<rfloor> \<or> round_half_even z = \<lfloor>z\<rfloor> + 1"
  by (simp add: round_half_even_def Let_def)

lemma round_half_even_ge: "of_int n \<le> z \<Longrightarrow> n \<le> round_half_even z"
  using round_half_even_cases [of z] le_floor_iff [of n z] by linarith

lemma round_half_even_le: "z \<le> of_int n \<Longrightarrow> round_half_even z \<le> n"
proof -
  assume a: "z \<le> of_int n"
  show ?thesis
  proof (cases "z = of_int \<lfloor>z\<rfloor>")
    case True
    then have "round_half_even z = \<lfloor>z\<rfloor>" by (simp add: round_half_even_def Let_def)
    moreover have "\<lfloor>z\<rfloor> \<le> n" using a by (simp add: floor_le_iff)
    ultimately show ?thesis by simp
  next
    case False
    then have "of_int \<lfloor>z\<rfloor> < z" using of_int_floor_le [of z] by linarith
    with a have "\<lfloor>z\<rfloor> < n" by linarith
    with round_half_even_cases [of z] show ?thesis by linarith
  qed
qed

lemma round_half_even_less: "z < of_int n - 1 / 2 \<Longrightarrow> round_half_even z < n"
proof -
  assume a: "z < of_int n - 1 / 2"
  have fl: "of_int \<lfloor>z\<rfloor> \<le> z" "z < of_int \<lfloor>z\<rfloor> + 1" by linarith+
  show ?thesis
  proof (cases "z - of_int \<lfloor>z\<rfloor> < 1 / 2")
    case True
    then have "round_half_even z = \<lfloor>z\<rfloor>" by (simp add: round_half_even_def Let_def)
    moreover have "\<lfloor>z\<rfloor> < n" using a fl by linarith
    ultimately show ?thesis by simp
  next
    case False
    with a have "of_int \<lfloor>z\<rfloor> + 1 < (of_int n :: real)" by linarith
    then have "\<lfloor>z\<rfloor> + 1 < n" by linarith
    with round_half_even_cases [of z] show ?thesis by linarith
  qed
qed

lemma exponent_eq:
  "2 powr of_int k \<le> \<bar>x\<bar> \<Longrightarrow> \<bar>x\<bar> < 2 powr (of_int k + 1) \<Longrightarrow> \<lfloor>log 2 \<bar>x\<bar>\<rfloor> = k"
proof -
  assume a: "2 powr of_int k \<le> \<bar>x\<bar>" "\<bar>x\<bar> < 2 powr (of_int k + 1)"
  have "0 < 2 powr real_of_int k" by simp
  with a(1) have "0 < \<bar>x\<bar>" by linarith
  with a show ?thesis by (simp add: floor_log_eq_powr_iff)
qed

lemma exponent_bounds:
  assumes "x \<noteq> 0"
  shows "2 powr of_int \<lfloor>log 2 \<bar>x\<bar>\<rfloor> \<le> \<bar>x\<bar>"
    and "\<bar>x\<bar> < 2 powr (of_int \<lfloor>log 2 \<bar>x\<bar>\<rfloor> + 1)"
proof -
  have "0 < \<bar>x\<bar>" using assms by simp
  with floor_log_eq_powr_iff [of "\<bar>x\<bar>" 2 "\<lfloor>log 2 \<bar>x\<bar>\<rfloor>"]
  show "2 powr of_int \<lfloor>log 2 \<bar>x\<bar>\<rfloor> \<le> \<bar>x\<bar>"
    and "\<bar>x\<bar> < 2 powr (of_int \<lfloor>log 2 \<bar>x\<bar>\<rfloor> + 1)" by simp_all
qed

lemma ulp_mult: "2 powr a * 2 powr (b - a) = (2::real) powr b"
  by (simp flip: powr_add)

lemma ulp_pos: "0 < ulp x"
  by (simp add: ulp_def)

text \<open>Rounding never takes a value of 30 or more below 30.\<close>

lemma nearest_ge30:
  assumes "30 \<le> x"
  shows "30 \<le> nearest x"
proof -
  define e where "e = \<lfloor>log 2 \<bar>x\<bar>\<rfloor>"
  have x: "x \<noteq> 0" "\<bar>x\<bar> = x" "0 < x" using assms by simp_all
  have "(2::real) powr of_int 4 \<le> x" using assms by simp
  then have "of_int 4 \<le> log 2 x" using x(3) by (simp add: le_log_iff)
  then have e4: "4 \<le> e" unfolding e_def x(2) by (simp add: le_floor_iff)
  then have u: "ulp x = 2 powr (of_int e - 52)" by (simp add: ulp_def e_def)
  have lo: "2 powr of_int e \<le> x" using exponent_bounds(1) [OF x(1)] by (simp add: e_def x(2))
  show ?thesis
  proof (cases "e = 4")
    case True
    then have u4: "ulp x = 1 / 2 ^ 48"
      by (simp add: u powr_minus divide_simps)
    have "of_int (30 * 2 ^ 48) \<le> x / ulp x" using assms by (simp add: u4)
    then have "30 * 2 ^ 48 \<le> round_half_even (x / ulp x)" by (rule round_half_even_ge)
    then have "(of_int (30 * 2 ^ 48) :: real) \<le> of_int (round_half_even (x / ulp x))"
      by (simp only: of_int_le_iff)
    then have "of_int (30 * 2 ^ 48) * ulp x \<le> nearest x"
      unfolding nearest_def using ulp_pos [of x] by (simp only: mult_le_cancel_right_pos)
    then show ?thesis by (simp add: u4)
  next
    case False
    with e4 have e5: "5 \<le> e" by simp
    have "x / ulp x \<ge> 2 powr of_int e / ulp x"
      using lo ulp_pos [of x] by (simp add: divide_right_mono)
    moreover have "2 powr of_int e / ulp x = 2 powr 52"
      by (simp add: u flip: powr_diff)
    ultimately have "of_int (2 ^ 52) \<le> x / ulp x" by simp
    then have "2 ^ 52 \<le> round_half_even (x / ulp x)" by (rule round_half_even_ge)
    then have "(of_int (2 ^ 52) :: real) \<le> of_int (round_half_even (x / ulp x))"
      by (simp only: of_int_le_iff)
    then have "of_int (2 ^ 52) * ulp x \<le> nearest x"
      unfolding nearest_def using ulp_pos [of x] by (simp only: mult_le_cancel_right_pos)
    moreover have "of_int (2 ^ 52) * ulp x = 2 powr of_int e"
      using ulp_mult [of 52 "of_int e"] by (simp add: u)
    moreover have "(2::real) powr of_int 5 \<le> 2 powr of_int e"
      by (rule powr_mono) (use e5 in simp_all)
    moreover have "(2::real) powr of_int 5 = 32" by simp
    ultimately show ?thesis by linarith
  qed
qed

lemma round_double_ge30:
  assumes "30 \<le> x"
  shows "\<not> num_less (round_double x) (Finite 30)"
  using assms nearest_ge30 [OF assms] by (simp add: round_double_def)

lemma nearest_sign:
  "0 \<le> x \<Longrightarrow> 0 \<le> nearest x" "x \<le> 0 \<Longrightarrow> nearest x \<le> 0"
proof -
  assume "0 \<le> x"
  then have "of_int 0 \<le> x / ulp x" using ulp_pos [of x] by simp
  then have "0 \<le> round_half_even (x / ulp x)" by (rule round_half_even_ge)
  then show "0 \<le> nearest x" using ulp_pos [of x] by (simp add: nearest_def)
next
  assume "x \<le> 0"
  then have "x / ulp x \<le> of_int 0" using ulp_pos [of x] by (simp add: divide_le_0_iff)
  then have "round_half_even (x / ulp x) \<le> 0" by (rule round_half_even_le)
  then show "nearest x \<le> 0" using ulp_pos [of x] by (simp add: nearest_def mult_le_0_iff)
qed

lemma nearest_small:
  assumes "0 < x" and "x < 16"
  shows "nearest x \<le> 16"
proof -
  define e where "e = max \<lfloor>log 2 \<bar>x\<bar>\<rfloor> (- 1022)"
  have x: "x \<noteq> 0" "\<bar>x\<bar> = x" using assms by simp_all
  have u: "ulp x = 2 powr (of_int e - 52)" by (simp add: ulp_def e_def)
  have "x < 2 powr of_int 4" using assms by simp
  then have "log 2 x < of_int 4" using assms(1) by (simp add: log_less_iff)
  then have "\<lfloor>log 2 \<bar>x\<bar>\<rfloor> < 4" unfolding x(2) by (simp add: floor_less_iff)
  then have e3: "e \<le> 3" by (simp add: e_def)
  have "x < 2 powr (of_int \<lfloor>log 2 \<bar>x\<bar>\<rfloor> + 1)"
    using exponent_bounds(2) [OF x(1)] by (simp add: x(2))
  also have "\<dots> \<le> 2 powr (of_int e + 1)"
    by (rule powr_mono) (simp_all add: e_def)
  finally have hi: "x < 2 powr (of_int e + 1)" .
  have "x / ulp x \<le> 2 powr (of_int e + 1) / ulp x"
    using hi ulp_pos [of x] by (simp add: divide_right_mono)
  moreover have "2 powr (of_int e + 1) / ulp x = 2 powr 53"
    by (simp add: u flip: powr_diff)
  ultimately have "x / ulp x \<le> of_int (2 ^ 53)" by simp
  then have "round_half_even (x / ulp x) \<le> 2 ^ 53" by (rule round_half_even_le)
  then have "(of_int (round_half_even (x / ulp x)) :: real) \<le> of_int (2 ^ 53)"
    by (simp only: of_int_le_iff)
  then have "nearest x \<le> of_int (2 ^ 53) * ulp x"
    unfolding nearest_def using ulp_pos [of x] by (simp only: mult_le_cancel_right_pos)
  moreover have "of_int (2 ^ 53) * ulp x = 2 powr (of_int e + 1)"
    using ulp_mult [of 53 "of_int e + 1"] by (simp add: u)
  moreover have "(2::real) powr (of_int e + 1) \<le> 2 powr of_int 4"
    by (rule powr_mono) (use e3 in simp_all)
  moreover have "(2::real) powr of_int 4 = 16" by simp
  ultimately show ?thesis by linarith
qed

lemma nearest_below30:
  assumes "16 \<le> x" and "x < 30 - 1 / 2 ^ 49"
  shows "nearest x < 30"
proof -
  have x: "x \<noteq> 0" "\<bar>x\<bar> = x" using assms by simp_all
  have "2 powr of_int 4 \<le> \<bar>x\<bar>" "\<bar>x\<bar> < 2 powr (of_int 4 + 1)" using assms by simp_all
  then have "\<lfloor>log 2 \<bar>x\<bar>\<rfloor> = 4" by (rule exponent_eq)
  then have u4: "ulp x = 1 / 2 ^ 48"
    by (simp add: ulp_def powr_minus divide_simps)
  have "x / ulp x < of_int (30 * 2 ^ 48) - 1 / 2" using assms(2) by (simp add: u4)
  then have "round_half_even (x / ulp x) < 30 * 2 ^ 48" by (rule round_half_even_less)
  then have "round_half_even (x / ulp x) \<le> 30 * 2 ^ 48 - 1" by simp
  then have "(of_int (round_half_even (x / ulp x)) :: real) \<le> of_int (30 * 2 ^ 48 - 1)"
    by (simp only: of_int_le_iff)
  then have "nearest x \<le> of_int (30 * 2 ^ 48 - 1) * ulp x"
    unfolding nearest_def using ulp_pos [of x] by (simp only: mult_le_cancel_right_pos)
  then show ?thesis by (simp add: u4)
qed

lemma huge_gt: "30 < huge"
  by (simp add: huge_def)

text \<open>A value more than half a unit in the last place below 30 stays below 30.\<close>

lemma round_double_below30:
  assumes "x < 30 - 1 / 2 ^ 49"
  shows "num_less (round_double x) (Finite 30)"
proof -
  consider "x = 0" | "x < 0" | "0 < x" "x < 16" | "16 \<le> x" by linarith
  then show ?thesis
  proof cases
    case 1
    then show ?thesis by (simp add: round_double_def)
  next
    case 2
    with nearest_sign(2) [of x] show ?thesis by (simp add: round_double_def)
  next
    case 3
    with nearest_small [of x] nearest_sign(1) [of x] huge_gt show ?thesis
      by (simp add: round_double_def)
  next
    case 4
    with nearest_below30 [OF 4 assms] nearest_sign(1) [of x] huge_gt show ?thesis
      by (simp add: round_double_def)
  qed
qed

lemma round_half_even_eq:
  assumes "of_int n - 1 / 2 < z" and "z < of_int n + 1 / 2"
  shows "round_half_even z = n"
proof -
  have "round_half_even z < n + 1"
    by (rule round_half_even_less) (use assms(2) in simp)
  moreover have "n - 1 < round_half_even z"
  proof (cases "of_int n \<le> z")
    case True
    then have "n \<le> round_half_even z" by (rule round_half_even_ge)
    then show ?thesis by simp
  next
    case False
    with assms(1) have "\<lfloor>z\<rfloor> = n - 1" by (intro floor_unique) simp_all
    with assms(1) have "round_half_even z = \<lfloor>z\<rfloor> + 1"
      by (simp add: round_half_even_def Let_def)
    then show ?thesis using \<open>\<lfloor>z\<rfloor> = n - 1\<close> by simp
  qed
  ultimately show ?thesis by simp
qed

text \<open>
  The double nearest to a value between 16 and 32, where the unit in the last place is
  \<open>1 / 2 ^ 48\<close>.
\<close>

lemma round_double_binade4:
  assumes "16 \<le> x" and "x < 32"
    and "of_int n - 1 / 2 < x * 2 ^ 48" and "x * 2 ^ 48 < of_int n + 1 / 2"
  shows "round_double x = Finite (of_int n / 2 ^ 48)"
proof -
  have "2 powr of_int 4 \<le> \<bar>x\<bar>" "\<bar>x\<bar> < 2 powr (of_int 4 + 1)" using assms by simp_all
  then have "\<lfloor>log 2 \<bar>x\<bar>\<rfloor> = 4" by (rule exponent_eq)
  then have u4: "ulp x = 1 / 2 ^ 48"
    by (simp add: ulp_def powr_minus divide_simps)
  have "round_half_even (x / ulp x) = n"
    by (rule round_half_even_eq) (use assms(3,4) in \<open>simp_all add: u4\<close>)
  then have n: "nearest x = of_int n / 2 ^ 48" by (simp add: nearest_def u4)
  have "real_of_int n < 33 * 2 ^ 48" using assms(2,3) by simp
  then have "nearest x \<le> 33" by (simp add: n divide_simps)
  moreover have "0 \<le> nearest x" using nearest_sign(1) [of x] assms(1) by simp
  ultimately have "\<not> huge \<le> \<bar>nearest x\<bar>" by (simp add: huge_def)
  then show ?thesis using assms(1) by (simp add: round_double_def n)
qed

section \<open>Properties of progress tracking\<close>

text \<open>
  C7. A save, periodic or final, sends nothing to the table when the media element is
  gone or its duration is not-a-number (not known yet) or zero: no row is inserted and
  none is updated.
\<close>

theorem saveProgress_skips_unknown_duration:
  "videoRef = None \<or> (videoRef = Some v \<and> (duration v = NaN \<or> duration v = Finite 0)) \<Longrightarrow>
   saveProgress p userId videoRef existing now = None"
  by (auto simp: saveProgress_def falsy_num_def isNaN_def)

theorem saveProgress_skips_unknown_duration_witness:
  "saveProgress demo_player ''u1'' None (Some ''row9'') ''2026-01-01T00:00:00.000Z'' = None
   \<and> saveProgress demo_player ''u1'' (Some (fresh_video\<lparr>duration := NaN\<rparr>)) (Some ''row9'')
        ''2026-01-01T00:00:00.000Z'' = None
   \<and> saveProgress demo_player ''u1'' (Some (fresh_video\<lparr>duration := Finite 0\<rparr>)) None
        ''2026-01-01T00:00:00.000Z'' = None"
  using saveProgress_skips_unknown_duration
      [of None fresh_video demo_player "''u1''" "Some ''row9''" "''2026-01-01T00:00:00.000Z''"]
    saveProgress_skips_unknown_duration
      [of "Some (fresh_video\<lparr>duration := NaN\<rparr>)" "fresh_video\<lparr>duration := NaN\<rparr>"
        demo_player "''u1''" "Some ''row9''" "''2026-01-01T00:00:00.000Z''"]
    saveProgress_skips_unknown_duration
      [of "Some (fresh_video\<lparr>duration := Finite 0\<rparr>)" "fresh_video\<lparr>duration := Finite 0\<rparr>"
        demo_player "''u1''" None "''2026-01-01T00:00:00.000Z''"]
  by simp

text \<open>
  C8 as stated fails by rounding: with a duration of 30 seconds at position \<open>1 / 2 ^ 60\<close>
  the remaining time is below 30 seconds, but the difference the code computes is the
  double 30, and the flag written is false.
\<close>

theorem rounded_remaining_counterexample:
  "duration ending_video = Finite 30
   \<and> currentTime ending_video = Finite (1 / 2 ^ 60)
   \<and> (30 :: real) - 1 / 2 ^ 60 < 30
   \<and> trackedSave demo_player (Some ''u1'') (Some ending_video) (Some ending_video)
        (Some ''row9'') ''2026-01-01T00:00:00.000Z''
      = Some (Update ''row9''
          \<lparr>progress = Finite (1 / 2 ^ 60), total = Finite 30, completed = False\<rparr>
          ''2026-01-01T00:00:00.000Z'')"
proof -
  have "round_double (30 - 1 / 2 ^ 60) = Finite 30"
    using round_double_binade4 [of "30 - 1 / 2 ^ 60" "30 * 2 ^ 48"] by simp
  then show ?thesis
    by (simp add: trackedSave_def trackingInstalled_def truthy_str_def demo_player_def
        saveProgress_def ending_video_def falsy_num_def isNaN_def Let_def)
qed

text \<open>
  C8, amended. Every mutation a save sends carries the position and the duration of the
  media element and a completed flag that is true exactly when the difference duration
  minus position, as the code computes it, is below 30. For installed tracking and a
  known duration \<open>d\<close> (finite, not zero) at position \<open>t\<close> a mutation is sent, an update of
  the row found or else an insert, and its completed flag is true exactly when the double
  nearest to \<open>d - t\<close> is below 30: a true flag means that the remaining time \<open>d - t\<close> is
  below 30 seconds, and a remaining time below \<open>30 - 1 / 2 ^ 49\<close> seconds gives a true
  flag.
\<close>

theorem saveProgress_completed_flag:
  "(trackedSave p userId videoAtEffect (Some v) existing now = Some w \<longrightarrow>
      progress (written w) = currentTime v
      \<and> total (written w) = duration v
      \<and> completed (written w) = num_less (num_sub (duration v) (currentTime v)) (Finite 30))
   \<and> (trackingInstalled p userId videoAtEffect
       \<and> duration v = Finite d \<and> d \<noteq> 0 \<and> currentTime v = Finite t \<longrightarrow>
      (\<exists>w'. trackedSave p userId videoAtEffect (Some v) existing now = Some w'
         \<and> (existing = None \<longrightarrow>
              w' = Insert (or_str userId '''') (or_null (episodeId p)) (or_null (movieId p))
                     (written w'))
         \<and> (\<forall>row. existing = Some row \<longrightarrow> w' = Update row (written w') now)
         \<and> completed (written w') = num_less (round_double (d - t)) (Finite 30)
         \<and> (completed (written w') \<longrightarrow> d - t < 30)
         \<and> (d - t < 30 - 1 / 2 ^ 49 \<longrightarrow> completed (written w'))))"
proof -
  have sent: "progress (written w) = currentTime v \<and> total (written w) = duration v
      \<and> completed (written w) = num_less (num_sub (duration v) (currentTime v)) (Finite 30)"
    if "saveProgress p u (Some v) existing now = Some w" for u
    using that by (cases existing) (auto simp: saveProgress_def Let_def split: if_splits)
  have first: "trackedSave p userId videoAtEffect (Some v) existing now = Some w \<longrightarrow>
      progress (written w) = currentTime v
      \<and> total (written w) = duration v
      \<and> completed (written w) = num_less (num_sub (duration v) (currentTime v)) (Finite 30)"
    using sent by (auto simp: trackedSave_def split: option.splits if_splits)
  have above: "\<not> num_less (round_double (d - t)) (Finite 30)" if "\<not> d - t < 30"
    using that round_double_ge30 [of "d - t"] by simp
  have second: "\<exists>w'. trackedSave p userId videoAtEffect (Some v) existing now = Some w'
      \<and> (existing = None \<longrightarrow>
           w' = Insert (or_str userId '''') (or_null (episodeId p)) (or_null (movieId p))
                  (written w'))
      \<and> (\<forall>row. existing = Some row \<longrightarrow> w' = Update row (written w') now)
      \<and> completed (written w') = num_less (round_double (d - t)) (Finite 30)
      \<and> (completed (written w') \<longrightarrow> d - t < 30)
      \<and> (d - t < 30 - 1 / 2 ^ 49 \<longrightarrow> completed (written w'))"
    if inst: "trackingInstalled p userId videoAtEffect"
      and known: "duration v = Finite d" "d \<noteq> 0" "currentTime v = Finite t"
  proof -
    from inst obtain u where u: "userId = Some u" "u \<noteq> []"
      by (auto simp: trackingInstalled_def truthy_str_def split: option.splits)
    then have tracked: "trackedSave p userId videoAtEffect (Some v) existing now
        = saveProgress p u (Some v) existing now"
      using inst by (simp add: trackedSave_def)
    have name: "or_str userId '''' = u" using u by (simp add: or_str_def)
    show ?thesis
      unfolding tracked name
      using known above round_double_below30 [of "d - t"]
      by (cases existing) (auto simp: saveProgress_def falsy_num_def isNaN_def Let_def)
  qed
  from first second show ?thesis by blast
qed

theorem saveProgress_completed_flag_witness:
  "trackedSave demo_player (Some ''u1'') (Some fresh_video)
      (Some (fresh_video\<lparr>currentTime := Finite 1480\<rparr>))
      (Some ''row9'') ''2026-01-01T00:00:00.000Z''
     = Some (Update ''row9'' \<lparr>progress = Finite 1480, total = Finite 1500, completed = True\<rparr>
         ''2026-01-01T00:00:00.000Z'')
   \<and> trackedSave demo_player (Some ''u1'') (Some fresh_video)
      (Some (fresh_video\<lparr>currentTime := Finite 1470\<rparr>))
      None ''2026-01-01T00:00:00.000Z''
     = Some (Insert ''u1'' None (Some ''m7'')
         \<lparr>progress = Finite 1470, total = Finite 1500, completed = False\<rparr>)"
proof -
  have known: "trackingInstalled demo_player (Some ''u1'') (Some fresh_video)
      \<and> duration (fresh_video\<lparr>currentTime := Finite 1480\<rparr>) = Finite 1500
      \<and> (1500::real) \<noteq> 0
      \<and> currentTime (fresh_video\<lparr>currentTime := Finite 1480\<rparr>) = Finite 1480"
    "trackingInstalled demo_player (Some ''u1'') (Some fresh_video)
      \<and> duration (fresh_video\<lparr>currentTime := Finite 1470\<rparr>) = Finite 1500
      \<and> (1500::real) \<noteq> 0
      \<and> currentTime (fresh_video\<lparr>currentTime := Finite 1470\<rparr>) = Finite 1470"
    by (simp_all add: fresh_video_def trackingInstalled_def truthy_str_def demo_player_def)
  have ids: "or_null (episodeId demo_player) = None" "or_null (movieId demo_player) = Some ''m7''"
    "or_str (Some ''u1'') '''' = ''u1''"
    by (simp_all add: or_null_def truthy_str_def demo_player_def or_str_def)
  from known(1) saveProgress_completed_flag
    [of demo_player "Some ''u1''" "Some fresh_video" "fresh_video\<lparr>currentTime := Finite 1480\<rparr>"
      "Some ''row9''" "''2026-01-01T00:00:00.000Z''" _ 1500 1480]
  obtain w where w: "trackedSave demo_player (Some ''u1'') (Some fresh_video)
      (Some (fresh_video\<lparr>currentTime := Finite 1480\<rparr>))
      (Some ''row9'') ''2026-01-01T00:00:00.000Z'' = Some w"
    "w = Update ''row9'' (written w) ''2026-01-01T00:00:00.000Z''"
    "completed (written w)"
    by auto
  from known(2) saveProgress_completed_flag
    [of demo_player "Some ''u1''" "Some fresh_video" "fresh_video\<lparr>currentTime := Finite 1470\<rparr>"
      None "''2026-01-01T00:00:00.000Z''" _ 1500 1470]
  obtain w' where w': "trackedSave demo_player (Some ''u1'') (Some fresh_video)
      (Some (fresh_video\<lparr>currentTime := Finite 1470\<rparr>))
      None ''2026-01-01T00:00:00.000Z'' = Some w'"
    "w' = Insert ''u1'' None (Some ''m7'') (written w')"
    "\<not> completed (written w')"
    by (auto simp: ids)
  from w(1,3) known(1) saveProgress_completed_flag
    [of demo_player "Some ''u1''" "Some fresh_video" "fresh_video\<lparr>currentTime := Finite 1480\<rparr>"
      "Some ''row9''" "''2026-01-01T00:00:00.000Z''" w 1500 1480]
  have f: "written w = \<lparr>progress = Finite 1480, total = Finite 1500, completed = True\<rparr>"
    by simp
  from w'(1,3) known(2) saveProgress_completed_flag
    [of demo_player "Some ''u1''" "Some fresh_video" "fresh_video\<lparr>currentTime := Finite 1470\<rparr>"
      None "''2026-01-01T00:00:00.000Z''" w' 1500 1470]
  have f': "written w' = \<lparr>progress = Finite 1470, total = Finite 1500, completed = False\<rparr>"
    by simp
  show ?thesis
    using w(1,2) w'(1,2) by (simp add: f f')
qed

text \<open>
  C10. The stored row sets the saved position only when it is not completed and its
  progress exceeds 10 seconds (for a finite progress \<open>x\<close>: \<open>10 < x\<close>), and then to that
  progress. For a row that is completed or at 10 seconds or less the saved position
  stays empty and the resume effect leaves the media element as it is, so playback
  starts from the beginning. Whenever the resume effect does move the media element,
  the row was not completed, its progress exceeded 10 seconds, and the element is moved
  to that progress.
\<close>

theorem resume_only_unfinished:
  "(loadSavedProgress p authUser (Some d) = Some t \<longrightarrow>
      \<not> h_completed d \<and> num_less (Finite 10) (h_progress d) \<and> t = h_progress d)
   \<and> (h_completed d \<or> \<not> num_less (Finite 10) (h_progress d) \<longrightarrow>
        loadSavedProgress p authUser (Some d) = None
        \<and> resumeEffect (loadSavedProgress p authUser (Some d)) videoRef = (videoRef, None))
   \<and> (fst (resumeEffect (loadSavedProgress p authUser (Some d)) (Some v)) \<noteq> Some v \<longrightarrow>
        \<not> h_completed d \<and> num_less (Finite 10) (h_progress d)
        \<and> fst (resumeEffect (loadSavedProgress p authUser (Some d)) (Some v))
            = Some (v\<lparr>currentTime := h_progress d\<rparr>))
   \<and> (h_progress d = Finite x \<longrightarrow> num_less (Finite 10) (h_progress d) = (10 < x))"
  by (auto simp: loadSavedProgress_def resumeEffect_def split: option.splits if_splits)

theorem resume_only_unfinished_witness:
  "loadSavedProgress demo_player (Some ''u1'') (Some (stored_row 600 False)) = Some (Finite 600)
   \<and> fst (resumeEffect (loadSavedProgress demo_player (Some ''u1'') (Some (stored_row 600 False)))
        (Some fresh_video)) = Some (fresh_video\<lparr>currentTime := Finite 600\<rparr>)
   \<and> loadSavedProgress demo_player (Some ''u1'') (Some (stored_row 600 True)) = None
   \<and> resumeEffect (loadSavedProgress demo_player (Some ''u1'') (Some (stored_row 10 False)))
        (Some fresh_video) = (Some fresh_video, None)"
proof -
  have load: "loadSavedProgress demo_player (Some ''u1'') (Some (stored_row 600 False))
      = Some (Finite 600)"
    by (simp add: loadSavedProgress_def stored_row_def demo_player_def truthy_str_def)
  have moved: "fst (resumeEffect (loadSavedProgress demo_player (Some ''u1'')
      (Some (stored_row 600 False))) (Some fresh_video)) \<noteq> Some fresh_video"
    by (simp add: load resumeEffect_def fresh_video_def)
  have fin: "h_completed (stored_row 600 True)"
    and early: "\<not> num_less (Finite 10) (h_progress (stored_row 10 False))"
    and at: "h_progress (stored_row 600 False) = Finite 600"
    by (simp_all add: stored_row_def)
  show ?thesis
    using resume_only_unfinished [of demo_player "Some ''u1''" "stored_row 600 False"
        "Finite 600" "Some fresh_video" fresh_video 600]
      resume_only_unfinished [of demo_player "Some ''u1''" "stored_row 600 True"
        "Finite 600" "Some fresh_video" fresh_video 600]
      resume_only_unfinished [of demo_player "Some ''u1''" "stored_row 10 False"
        "Finite 600" "Some fresh_video" fresh_video 10]
      load moved fin early at
    by (simp add: resumeEffect_def)
qed

section \<open>Properties of server switching\<close>

lemma alpha_eq:
  "alpha = \<lparr>vs_id = ''a1'', server_name = ''Alpha'', source_type = ''mp4'', vs_type = Mp4,
     url = None, quality_urls = None, quality = Some ''720p'', is_default = Some True,
     version = None, permission = None\<rparr>"
  by (simp add: alpha_def paid_player_def demo_player_def server_a_def sources_def
      rawSources_def enumerate_eq_zip normalizeSource_def Let_def or_str_def
      normalizeType_def toLowerCase_def toLowerChar_def isUpperCase_def trim_def
      isWhiteSpace_def)

lemma beta_eq:
  "beta = \<lparr>vs_id = ''b2'', server_name = ''Beta'', source_type = ''mp4'', vs_type = Mp4,
     url = None, quality_urls = None, quality = None, is_default = None,
     version = None, permission = None\<rparr>"
  by (simp add: beta_def paid_player_def demo_player_def server_b_def sources_def
      rawSources_def enumerate_eq_zip normalizeSource_def Let_def or_str_def
      normalizeType_def toLowerCase_def toLowerChar_def isUpperCase_def trim_def
      isWhiteSpace_def)

lemma sources_paid_player: "sources paid_player = [alpha, beta]"
proof -
  have "length (sources paid_player) = 2"
    by (simp add: sources_def rawSources_def paid_player_def demo_player_def)
  then show ?thesis
    by (simp add: list_eq_iff_nth_eq alpha_def beta_def less_Suc_eq numeral_2_eq_2)
qed

lemma paid_player_simps:
  "accessType paid_player = Rent" "user paid_player = Some ''u1''"
  "subscriptionLoading paid_player = False" "rentalLoading paid_player = False"
  "isLocked paid_player = False"
  "episodeId paid_player = None" "movieId paid_player = Some ''m7''"
  "mediaId paid_player = Some ''m7''" "mediaType paid_player = Some ''movie''"
  "excludeFromPlan paid_player = False"
  by (simp_all add: paid_player_def demo_player_def isLocked_def)

lemma mount_paid_player:
  "mount paid_player =
     \<lparr>currentSource = Some alpha, protectedSource = None, accessValidated = False,
      accessError = None, pending = [protectedRequest paid_player alpha]\<rparr>"
  by (simp add: mount_def initDefaultSource_def defaultSource_def sources_paid_player
      initial_state_def sourceEffect_def fetchProtectedSource_call_def paid_player_simps
      alpha_eq)

lemma answer_validated:
  "fetchProtectedSource_resume (answer alpha ''//cdn.tv/v/main.mp4'') st =
     st\<lparr>protectedSource := Some (alpha\<lparr>url := Some ''//cdn.tv/v/main.mp4''\<rparr>),
        accessValidated := True\<rparr>"
  "fetchProtectedSource_resume (answer beta ''//cdn.tv/w/main.mp4'') st =
     st\<lparr>protectedSource := Some (beta\<lparr>url := Some ''//cdn.tv/w/main.mp4''\<rparr>),
        accessValidated := True\<rparr>"
  "\<not> setsQualities (answer alpha ''//cdn.tv/v/main.mp4'')"
  "\<not> setsQualities (answer beta ''//cdn.tv/w/main.mp4'')"
  by (simp_all add: fetchProtectedSource_resume_def setsQualities_def answer_def
      validatedSource_def alpha_eq beta_eq normalizeType_def or_str_def toLowerCase_def
      toLowerChar_def isUpperCase_def trim_def isWhiteSpace_def)

text \<open>
  C4. The code does not keep the claim. A rented title with the servers Alpha (the
  default) and Beta is mounted for a viewer who holds the rental, which leaves the request
  for Alpha pending. The viewer picks Beta: the handler and the effect that watches the
  selection each request Beta. Beta's answers arrive, then Alpha's late answer. In the
  end Beta is the selected source, access counts as validated, and the validated
  playback source is Alpha's, with Alpha's URL.
\<close>

theorem late_answer_validates_stale_source:
  "vs_id alpha = ''a1'' \<and> vs_id beta = ''b2''
   \<and> map req_sourceId (pending (mount paid_player)) = [''a1'']
   \<and> map_option (map req_sourceId \<circ> pending)
        (run paid_player (mount paid_player) [ServerChange beta]) = Some [''a1'', ''b2'', ''b2'']
   \<and> run paid_player (mount paid_player) late_answer
      = Some \<lparr>currentSource = Some beta,
              protectedSource = Some (alpha\<lparr>url := Some ''//cdn.tv/v/main.mp4''\<rparr>),
              accessValidated = True, accessError = None, pending = []\<rparr>"
proof -
  let ?ra = "protectedRequest paid_player alpha" and ?rb = "protectedRequest paid_player beta"
  let ?b = "beta\<lparr>url := Some ''//cdn.tv/w/main.mp4''\<rparr>"
  let ?a = "alpha\<lparr>url := Some ''//cdn.tv/v/main.mp4''\<rparr>"
  let ?s1 = "\<lparr>currentSource = Some beta, protectedSource = None, accessValidated = False,
      accessError = None, pending = [?ra, ?rb, ?rb]\<rparr>"
  let ?s2 = "\<lparr>currentSource = Some beta, protectedSource = Some ?b, accessValidated = True,
      accessError = None, pending = [?ra, ?rb]\<rparr>"
  let ?s3 = "\<lparr>currentSource = Some beta, protectedSource = Some ?b, accessValidated = True,
      accessError = None, pending = [?ra]\<rparr>"
  let ?s4 = "\<lparr>currentSource = Some beta, protectedSource = Some ?a, accessValidated = True,
      accessError = None, pending = []\<rparr>"
  have ids: "vs_id alpha = ''a1''" "vs_id beta = ''b2''" "alpha \<noteq> beta"
    by (simp_all add: alpha_eq beta_eq)
  have click: "step paid_player (mount paid_player) (ServerChange beta) = Some ?s1"
    using ids(3)
    by (simp add: mount_paid_player sources_paid_player handleServerChange_def Let_def
        sourceEffect_def fetchProtectedSource_call_def paid_player_simps)
  have first: "step paid_player ?s1 (Response 1 (answer beta ''//cdn.tv/w/main.mp4'')) = Some ?s2"
    by (simp add: answer_validated)
  have second: "step paid_player ?s2 (Response 1 (answer beta ''//cdn.tv/w/main.mp4'')) = Some ?s3"
    by (simp add: answer_validated)
  have late: "step paid_player ?s3 (Response 0 (answer alpha ''//cdn.tv/v/main.mp4'')) = Some ?s4"
    by (simp add: answer_validated)
  have "run paid_player (mount paid_player) [ServerChange beta] = Some ?s1"
    by (simp only: run.simps click option.case)
  moreover have "run paid_player (mount paid_player) late_answer = Some ?s4"
    by (simp only: late_answer_def run.simps click first second late option.case)
  moreover have "map req_sourceId (pending (mount paid_player)) = [''a1'']"
    by (simp add: mount_paid_player protectedRequest_def ids)
  ultimately show ?thesis
    using ids(1,2) by (simp add: protectedRequest_def)
qed


end
